theory Spec2Isabelle
  imports Main "HOL-Library.Word"
begin

section \<open>The gorilla/websocket connection adapter\<close>

text \<open>
  A shallow embedding of package \<open>gorilla\<close>: the adapter that binds one
  underlying websocket connection and correlates pong and close notifications
  with pending \<open>Ping\<close> calls through the channel of channels \<open>pingRequests\<close>.

  Go's \<open>int\<close>, \<open>MessageType\<close> and \<open>StatusCode\<close> are modelled as \<open>int\<close>: the
  adapter only copies and converts these values, it performs no arithmetic on them.
  A \<open>nil\<close> error, slice or pointer is \<open>None\<close>.
\<close>

subsection \<open>Errors, contexts and payloads\<close>

type_synonym bytes = "8 word list"

text \<open>The two values \<open>ctx.Err()\<close> can take once a context is done.\<close>

datatype ctx_err = Canceled | DeadlineExceeded

text \<open>
  The error values that flow through the adapter:
  \<^item> \<open>ContextErr\<close>: the result of \<open>ctx.Err()\<close> on a done context;
  \<^item> \<open>Errorf m\<close>: \<open>fmt.Errorf(m)\<close>;
  \<^item> \<open>ErrorfW m e\<close>: \<open>fmt.Errorf(m + ": %w", e)\<close>, which wraps \<open>e\<close>;
  \<^item> \<open>TransportErr m\<close>: any error of the transport that is not a close error;
  \<^item> \<open>CloseError code text\<close>: the transport's \<open>*websocket.CloseError\<close>;
  \<^item> \<open>WebsocketCloseError code reason err\<close>: the adapter interface's structured
    close error with its fields \<open>Code\<close>, \<open>Reason\<close> and \<open>Err\<close>.
\<close>

datatype error =
    ContextErr ctx_err
  | Errorf string
  | ErrorfW string error
  | TransportErr string
  | CloseError int string
  | WebsocketCloseError int string error

text \<open>A context as the adapter observes it: \<open>None\<close> while it is not done.\<close>

type_synonym ctx = "ctx_err option"

fun ctx_Err :: "ctx \<Rightarrow> error option" where
  "ctx_Err None = None"
| "ctx_Err (Some k) = Some (ContextErr k)"

text \<open>The message types of control frames handed to \<open>WriteControl\<close>.\<close>

datatype control_type = CloseMessage | PingMessage

text \<open>
  The payload of a control frame: \<open>nil\<close> for a ping, and the transport's
  \<open>FormatCloseMessage(code, reason)\<close> for a close frame, kept symbolic.
\<close>

datatype control_payload = NilPayload | FormatCloseMessage int string

subsection \<open>Connections, reply channels and the adapter state\<close>

text \<open>
  The handlers a \<open>*websocket.Conn\<close> calls when it reads a close or a pong frame.
  A connection fresh from the dialer has the transport's defaults; \<open>Dial\<close>
  replaces them by the adapter's own methods.
\<close>

datatype close_handler = DefaultCloseHandler | AdapterCloseHandler
datatype pong_handler = DefaultPongHandler | AdapterPongHandler

record Conn =
  conn_id :: nat
  handleClose :: close_handler
  handlePong :: pong_handler

text \<open>
  A reply channel is an unbuffered \<open>chan error\<close> made by one \<open>Ping\<close> call. A
  non-blocking send on it succeeds exactly when a receiver is blocked on it, so
  its state is one of:
  \<^item> \<open>NoReceiver\<close>: no goroutine is blocked receiving (the \<open>Ping\<close> has not
    reached its final \<open>select\<close>, or has left it);
  \<^item> \<open>Receiving\<close>: the \<open>Ping\<close> is blocked in its final \<open>select\<close>;
  \<^item> \<open>Handed v\<close>: a send completed and handed \<open>v\<close> to the receiver.
\<close>

type_synonym chan = nat

datatype slot = NoReceiver | Receiving | Handed "error option"

text \<open>
  The effects that leave no mark on the adapter's fields are recorded, in
  program order, as events: frames handed to the transport, sends on the
  channels, and assignments to the connection handle.
\<close>

datatype event =
    EvWriteControl Conn control_type control_payload
  | EvWriteMessage Conn int "bytes option"
  | EvRegistered chan
  | EvNotified chan "error option"
  | EvConnSet "Conn option"

datatype dialer = DefaultDialer | CustomDialer nat

type_synonym header = "(string \<times> string list) list"

text \<open>
  The struct \<open>GorillaWebsocketConnectionAdapter\<close> together with the part of
  the runtime it acts on. \<open>conn\<close>, \<open>dialer\<close> and \<open>requestHeader\<close> are the
  struct's fields; \<open>pingRequests\<close> holds the buffered channel's content, oldest
  first, and \<open>pingRequests_cap\<close> its capacity; \<open>chans\<close> is the state of every
  reply channel, \<open>next_chan\<close> the next channel \<open>make\<close> returns, and \<open>events\<close>
  the log of effects. The mutex \<open>mu\<close> has no field: each operation of the model
  runs its critical section as one step.
\<close>

record adapter =
  conn :: "Conn option"
  dialer :: dialer
  requestHeader :: "header option"
  pingRequests :: "chan list"
  pingRequests_cap :: nat
  chans :: "chan \<Rightarrow> slot"
  next_chan :: chan
  events :: "event list"

definition NewGorillaWebsocketConnectionAdapter ::
  "dialer option \<Rightarrow> header option \<Rightarrow> adapter" where
  "NewGorillaWebsocketConnectionAdapter d h =
     \<lparr> conn = None,
       dialer = (case d of None \<Rightarrow> DefaultDialer | Some d' \<Rightarrow> d'),
       requestHeader = h,
       pingRequests = [],
       pingRequests_cap = 10,
       chans = (\<lambda>_. NoReceiver),
       next_chan = 0,
       events = [] \<rparr>"

subsection \<open>The notification scans\<close>

text \<open>
  \<open>propagateToFirstActiveListener listeners notification\<close>: the loop receives
  the queued channels one by one without blocking. The first argument is the
  content of \<open>listeners\<close>; the result holds the returned flag, what is left in
  \<open>listeners\<close>, and the state after the sends. An empty queue is the outer
  \<open>default\<close> branch; a channel whose receiver is not blocked is the inner
  \<open>default\<close> branch, which loops on.
\<close>

fun propagateToFirstActiveListener ::
  "chan list \<Rightarrow> error option \<Rightarrow> adapter \<Rightarrow> bool \<times> chan list \<times> adapter" where
  "propagateToFirstActiveListener [] notification s = (False, [], s)"
| "propagateToFirstActiveListener (listener # listeners) notification s =
     (if chans s listener = Receiving
      then (True, listeners,
            s\<lparr> chans := (chans s)(listener := Handed notification),
               events := events s @ [EvNotified listener notification] \<rparr>)
      else propagateToFirstActiveListener listeners notification s)"

text \<open>
  \<open>propagateToAllActiveListener listeners notification\<close>: the same loop
  without a result. After a successful send the source executes \<open>return\<close>.
\<close>

fun propagateToAllActiveListener ::
  "chan list \<Rightarrow> error option \<Rightarrow> adapter \<Rightarrow> chan list \<times> adapter" where
  "propagateToAllActiveListener [] notification s = ([], s)"
| "propagateToAllActiveListener (listener # listeners) notification s =
     (if chans s listener = Receiving
      then (listeners,
            s\<lparr> chans := (chans s)(listener := Handed notification),
               events := events s @ [EvNotified listener notification] \<rparr>)
      else propagateToAllActiveListener listeners notification s)"

subsection \<open>The handlers installed on the connection\<close>

definition pongHandler :: "string \<Rightarrow> adapter \<Rightarrow> error option \<times> adapter" where
  "pongHandler appData s =
     (case propagateToFirstActiveListener (pingRequests s) None s of
        (_, q, s') \<Rightarrow> (None, s'\<lparr> pingRequests := q \<rparr>))"

definition closeHandler :: "int \<Rightarrow> string \<Rightarrow> adapter \<Rightarrow> error option \<times> adapter" where
  "closeHandler code text s =
     (case propagateToAllActiveListener (pingRequests s)
             (Some (WebsocketCloseError code text
                      (Errorf ''close message received from server''))) s of
        (q, s') \<Rightarrow> (None, s'\<lparr> pingRequests := q \<rparr>))"

subsection \<open>Dial\<close>

text \<open>
  What \<open>adapter.dialer.DialContext\<close> returns: on failure an optional
  response and the error, on success the fresh connection and the response.
\<close>

type_synonym response = nat

datatype dial_outcome =
    DialFailure "response option" error
  | DialSuccess Conn "response option"

text \<open>
  \<open>Dial ctx target\<close>, with the outcome of the handshake as third argument.
  The result is the pair the method returns and the adapter afterwards.
\<close>

definition Dial ::
  "ctx \<Rightarrow> string \<Rightarrow> dial_outcome \<Rightarrow> adapter \<Rightarrow> (response option \<times> error option) \<times> adapter" where
  "Dial c target outcome s =
     (case ctx_Err c of
        Some e \<Rightarrow> ((None, Some e), s)
      | None \<Rightarrow>
          (case conn s of
             Some _ \<Rightarrow> ((None, Some (Errorf ''a connection has already been established'')), s)
           | None \<Rightarrow>
               (case outcome of
                  DialFailure res err \<Rightarrow> ((res, Some err), s)
                | DialSuccess cn res \<Rightarrow>
                    (let cn' = cn\<lparr> handleClose := AdapterCloseHandler,
                                    handlePong := AdapterPongHandler \<rparr>
                     in ((res, None),
                         s\<lparr> conn := Some cn',
                            events := events s @ [EvConnSet (Some cn')] \<rparr>)))))"

subsection \<open>Close\<close>

text \<open>
  \<open>Close ctx code reason\<close>, with the result of
  \<open>conn.WriteControl(CloseMessage, \<dots>)\<close> as fourth argument. The context is
  not inspected by the source.
\<close>

definition Close ::
  "ctx \<Rightarrow> int \<Rightarrow> string \<Rightarrow> error option \<Rightarrow> adapter \<Rightarrow> error option \<times> adapter" where
  "Close c code reason write_err s =
     (case conn s of
        None \<Rightarrow> (Some (Errorf ''close failed because no connection is already up''), s)
      | Some cn \<Rightarrow>
          (case propagateToAllActiveListener (pingRequests s)
                  (Some (WebsocketCloseError code reason
                           (Errorf ''client closed the connection'')))
                  (s\<lparr> events := events s
                        @ [EvWriteControl cn CloseMessage (FormatCloseMessage code reason)] \<rparr>) of
             (q, s') \<Rightarrow>
               (write_err,
                s'\<lparr> pingRequests := q, conn := None,
                    events := events s' @ [EvConnSet None] \<rparr>)))"

subsection \<open>Ping\<close>

text \<open>
  \<open>Ping\<close> blocks in two places, so it is split at its \<open>select\<close> statements
  into the points a call can be at:
  \<^item> \<open>Ping_entry\<close>: before the first \<open>select\<close>;
  \<^item> \<open>Ping_register cn pong\<close>: at the \<open>select\<close> that sends \<open>pong\<close> on
    \<open>pingRequests\<close>, holding the connection read under the mutex;
  \<^item> \<open>Ping_write cn pong\<close>: before \<open>conn.WriteControl(PingMessage, \<dots>)\<close>;
  \<^item> \<open>Ping_wait pong\<close>: at the last \<open>select\<close>, not yet blocked;
  \<^item> \<open>Ping_parked pong\<close>: blocked in the last \<open>select\<close>;
  \<^item> \<open>Ping_return e\<close>: returned \<open>e\<close>.
\<close>

datatype ping_pc =
    Ping_entry
  | Ping_register Conn chan
  | Ping_write Conn chan
  | Ping_wait chan
  | Ping_parked chan
  | Ping_return "error option"

text \<open>
  What one step of a \<open>Ping\<close> call observes of its surroundings: the state of
  its context, which case a \<open>select\<close> with two ready cases runs, and the
  result of \<open>WriteControl\<close>.
\<close>

record ping_env =
  env_ctx :: ctx
  env_pick_ctx :: bool
  env_write :: "error option"

fun Ping_step :: "ping_env \<Rightarrow> ping_pc \<Rightarrow> adapter \<Rightarrow> ping_pc \<times> adapter" where
  "Ping_step e Ping_entry s =
     (case ctx_Err (env_ctx e) of
        Some err \<Rightarrow> (Ping_return (Some err), s)
      | None \<Rightarrow>
          (case conn s of
             None \<Rightarrow>
               (Ping_return (Some (Errorf ''ping failed because no connection is already up'')), s)
           | Some cn \<Rightarrow>
               (Ping_register cn (next_chan s),
                s\<lparr> chans := (chans s)(next_chan s := NoReceiver),
                   next_chan := Suc (next_chan s) \<rparr>)))"
| "Ping_step e (Ping_register cn pong) s =
     (if length (pingRequests s) < pingRequests_cap s
         \<and> (ctx_Err (env_ctx e) = None \<or> \<not> env_pick_ctx e)
      then (Ping_write cn pong,
            s\<lparr> pingRequests := pingRequests s @ [pong],
               events := events s @ [EvRegistered pong] \<rparr>)
      else (case ctx_Err (env_ctx e) of
              Some err \<Rightarrow> (Ping_return (Some err), s)
            | None \<Rightarrow> (Ping_register cn pong, s)))"
| "Ping_step e (Ping_write cn pong) s =
     (let s' = s\<lparr> events := events s @ [EvWriteControl cn PingMessage NilPayload] \<rparr>
      in case env_write e of
           Some err \<Rightarrow> (Ping_return (Some (ErrorfW ''ping failed'' err)), s')
         | None \<Rightarrow> (Ping_wait pong, s'))"
| "Ping_step e (Ping_wait pong) s =
     (case ctx_Err (env_ctx e) of
        Some err \<Rightarrow> (Ping_return (Some err), s)
      | None \<Rightarrow> (Ping_parked pong, s\<lparr> chans := (chans s)(pong := Receiving) \<rparr>))"
| "Ping_step e (Ping_parked pong) s =
     (case chans s pong of
        Handed v \<Rightarrow> (Ping_return v, s)
      | _ \<Rightarrow>
          (case ctx_Err (env_ctx e) of
             Some err \<Rightarrow> (Ping_return (Some err), s\<lparr> chans := (chans s)(pong := NoReceiver) \<rparr>)
           | None \<Rightarrow> (Ping_parked pong, s)))"
| "Ping_step e (Ping_return v) s = (Ping_return v, s)"

text \<open>
  A call runs its steps one after the other, each under the observation of its
  moment; \<open>Ping\<close> is the call from its entry.
\<close>

fun Ping_run :: "ping_env list \<Rightarrow> ping_pc \<Rightarrow> adapter \<Rightarrow> ping_pc \<times> adapter" where
  "Ping_run [] pc s = (pc, s)"
| "Ping_run (e # es) pc s = (case Ping_step e pc s of (pc', s') \<Rightarrow> Ping_run es pc' s')"

definition Ping :: "ping_env list \<Rightarrow> adapter \<Rightarrow> ping_pc \<times> adapter" where
  "Ping es s = Ping_run es Ping_entry s"

subsection \<open>Read\<close>

text \<open>
  What the transport's \<open>ReadMessage\<close> meets on the wire before it returns:
  control frames it handles itself, then a data frame, a close frame, or a
  failure. On a failure the transport returns a triple of its own choosing.
\<close>

datatype control_frame = PongFrame string | PingFrame string

datatype final_frame =
    DataFrame int "bytes option"
  | CloseFrame int string
  | ReadFailure int "bytes option" error

text \<open>
  \<open>conn.ReadMessage()\<close> on connection \<open>cn\<close>: each pong frame runs the pong
  handler set on \<open>cn\<close>, a close frame runs its close handler and becomes a
  \<open>CloseError\<close> with message type \<open>-1\<close>. The transport's default handlers do
  not touch the adapter.
\<close>

fun handle_control :: "Conn \<Rightarrow> control_frame \<Rightarrow> adapter \<Rightarrow> adapter" where
  "handle_control cn (PongFrame appData) s =
     (case handlePong cn of
        AdapterPongHandler \<Rightarrow> snd (pongHandler appData s)
      | DefaultPongHandler \<Rightarrow> s)"
| "handle_control cn (PingFrame appData) s = s"

fun handle_controls :: "Conn \<Rightarrow> control_frame list \<Rightarrow> adapter \<Rightarrow> adapter" where
  "handle_controls cn [] s = s"
| "handle_controls cn (f # fs) s = handle_controls cn fs (handle_control cn f s)"

fun ReadMessage ::
  "Conn \<Rightarrow> control_frame list \<times> final_frame \<Rightarrow> adapter
     \<Rightarrow> (int \<times> bytes option \<times> error option) \<times> adapter" where
  "ReadMessage cn (fs, fin) s =
     (let s' = handle_controls cn fs s
      in case fin of
           DataFrame t m \<Rightarrow> ((t, m, None), s')
         | CloseFrame code text \<Rightarrow>
             ((- 1, None, Some (CloseError code text)),
              (case handleClose cn of
                 AdapterCloseHandler \<Rightarrow> snd (closeHandler code text s')
               | DefaultCloseHandler \<Rightarrow> s'))
         | ReadFailure t m err \<Rightarrow> ((t, m, Some err), s'))"

text \<open>
  \<open>Read ctx\<close>. The first argument is the transport's \<open>Error()\<close> method, the
  third what the transport meets on the wire. Only an error that is a
  \<open>*websocket.CloseError\<close> passes the type assertion.
\<close>

definition Read ::
  "(error \<Rightarrow> string) \<Rightarrow> ctx \<Rightarrow> control_frame list \<times> final_frame \<Rightarrow> adapter
     \<Rightarrow> (int \<times> bytes option \<times> error option) \<times> adapter" where
  "Read Error c wire s =
     (case ctx_Err c of
        Some e \<Rightarrow> ((- 1, None, Some e), s)
      | None \<Rightarrow>
          (case conn s of
             None \<Rightarrow>
               ((- 1, None, Some (Errorf ''read failed because no connection is already up'')), s)
           | Some cn \<Rightarrow>
               (case ReadMessage cn wire s of
                  ((msgType, msg, Some err), s') \<Rightarrow>
                    (case err of
                       CloseError code text \<Rightarrow>
                         ((- 1, None, Some (WebsocketCloseError code (Error err) err)),
                          s'\<lparr> conn := None, events := events s' @ [EvConnSet None] \<rparr>)
                     | _ \<Rightarrow> ((- 1, None, Some err), s'))
                | ((msgType, msg, None), s') \<Rightarrow> ((msgType, msg, None), s'))))"

subsection \<open>Write and the underlying connection\<close>


definition GetUnderlyingWebsocketConnection :: "adapter \<Rightarrow> Conn option" where
  "GetUnderlyingWebsocketConnection s = conn s"

subsection \<open>The error kinds and message types of the adapter interface\<close>



text \<open>
  Modelled from the spec: the declaration of \<open>MessageType\<close> is in package
  \<open>wsadapters\<close>, which is not among the sources. The spec gives its values as
  \<open>{Text, Binary}\<close>; the adapter converts them to and from the transport's
  frame types, whose text and binary codes are 1 and 2.
\<close>

definition Text :: int where
  "Text = 1"

definition Binary :: int where
  "Binary = 2"

definition valid_MessageType :: "int \<Rightarrow> bool" where
  "valid_MessageType t = (t = Text \<or> t = Binary)"

subsection \<open>Sample states\<close>

text \<open>A connection as the dialer returns it, and an adapter that has dialed it.\<close>

definition fresh_conn :: Conn where
  "fresh_conn = \<lparr> conn_id = 0, handleClose = DefaultCloseHandler,
                  handlePong = DefaultPongHandler \<rparr>"

definition bound_conn :: Conn where
  "bound_conn = \<lparr> conn_id = 0, handleClose = AdapterCloseHandler,
                  handlePong = AdapterPongHandler \<rparr>"

definition unbound :: adapter where
  "unbound = NewGorillaWebsocketConnectionAdapter None None"

definition dialed :: adapter where
  "dialed = snd (Dial None ''ws://host'' (DialSuccess fresh_conn None) unbound)"

text \<open>
  A step observation with a live context and a transport that accepts the
  frame; one with the context cancelled; one where the transport refuses the
  frame.
\<close>

definition quiet :: ping_env where
  "quiet = \<lparr> env_ctx = None, env_pick_ctx = False, env_write = None \<rparr>"

definition cancelled :: ping_env where
  "cancelled = \<lparr> env_ctx = Some Canceled, env_pick_ctx = True, env_write = None \<rparr>"

definition refused :: ping_env where
  "refused = \<lparr> env_ctx = None, env_pick_ctx = False,
               env_write = Some (TransportErr ''broken pipe'') \<rparr>"

text \<open>
  Two \<open>Ping\<close> calls made on the dialed adapter, each run until it blocks
  waiting for its reply: channels 0 and 1 are queued and both callers wait.
\<close>

definition two_pending :: adapter where
  "two_pending =
     snd (Ping [quiet, quiet, quiet, quiet]
            (snd (Ping [quiet, quiet, quiet, quiet] dialed)))"

text \<open>
  A third call queued behind them, and then the first caller gone: its context
  ended while it waited, so channel 0 is still queued but has no receiver.
\<close>

definition three_pending :: adapter where
  "three_pending = snd (Ping [quiet, quiet, quiet, quiet] two_pending)"

definition first_abandoned :: adapter where
  "first_abandoned = snd (Ping_step cancelled (Ping_parked 0) three_pending)"

text \<open>
  \<open>pending n\<close>: \<open>n\<close> calls of \<open>Ping\<close> made one after the other on the dialed
  adapter, each run until it blocks waiting for its reply.
\<close>

primrec pending :: "nat \<Rightarrow> adapter" where
  "pending 0 = dialed"
| "pending (Suc n) = snd (Ping [quiet, quiet, quiet, quiet] (pending n))"

text \<open>A stand-in for the transport's \<open>Error()\<close> method.\<close>

fun sample_Error :: "error \<Rightarrow> string" where
  "sample_Error (CloseError code reason) = ''websocket: close: '' @ reason"
| "sample_Error _ = ''error''"

subsection \<open>Points of a call\<close>


section \<open>Properties\<close>

subsection \<open>Evaluation of the sample states\<close>

lemmas sample_defs =
  two_pending_def three_pending_def first_abandoned_def dialed_def unbound_def
  quiet_def cancelled_def refused_def fresh_conn_def bound_conn_def
  Ping_def Dial_def NewGorillaWebsocketConnectionAdapter_def Let_def

lemma dialed_eq:
  "dialed = \<lparr> conn = Some bound_conn, dialer = DefaultDialer, requestHeader = None,
     pingRequests = [], pingRequests_cap = 10, chans = (\<lambda>_. NoReceiver), next_chan = 0,
     events = [EvConnSet (Some bound_conn)] \<rparr>"
  by (simp add: sample_defs)

lemma two_pending_eq:
  "two_pending = \<lparr> conn = Some bound_conn, dialer = DefaultDialer, requestHeader = None,
     pingRequests = [0, 1], pingRequests_cap = 10,
     chans = (\<lambda>_. NoReceiver)(0 := Receiving, 1 := Receiving), next_chan = 2,
     events = [EvConnSet (Some bound_conn), EvRegistered 0,
               EvWriteControl bound_conn PingMessage NilPayload, EvRegistered 1,
               EvWriteControl bound_conn PingMessage NilPayload] \<rparr>"
  by (simp add: sample_defs fun_eq_iff)

lemma first_abandoned_eq:
  "first_abandoned = \<lparr> conn = Some bound_conn, dialer = DefaultDialer, requestHeader = None,
     pingRequests = [0, 1, 2], pingRequests_cap = 10,
     chans = (\<lambda>_. NoReceiver)(1 := Receiving, 2 := Receiving), next_chan = 3,
     events = [EvConnSet (Some bound_conn), EvRegistered 0,
               EvWriteControl bound_conn PingMessage NilPayload, EvRegistered 1,
               EvWriteControl bound_conn PingMessage NilPayload, EvRegistered 2,
               EvWriteControl bound_conn PingMessage NilPayload] \<rparr>"
  by (simp add: sample_defs fun_eq_iff)

subsection \<open>The scans\<close>

text \<open>Channels without a blocked receiver at the head of the queue are dropped.\<close>

lemma propagateToFirst_skip:
  "\<forall>x \<in> set skipped. chans s x \<noteq> Receiving \<Longrightarrow>
   propagateToFirstActiveListener (skipped @ ls) n s = propagateToFirstActiveListener ls n s"
  by (induction skipped) auto

lemma propagateToAll_skip:
  "\<forall>x \<in> set skipped. chans s x \<noteq> Receiving \<Longrightarrow>
   propagateToAllActiveListener (skipped @ ls) n s = propagateToAllActiveListener ls n s"
  by (induction skipped) auto

text \<open>The two scans differ in their result type only.\<close>

lemma propagateToAll_eq_First:
  "propagateToAllActiveListener ls n s = snd (propagateToFirstActiveListener ls n s)"
  by (induction ls) auto

lemma propagateToFirst_conn:
  "propagateToFirstActiveListener ls n s = (b, q, s') \<Longrightarrow> conn s' = conn s"
  by (induction ls) (auto split: if_splits)

lemma propagateToAll_conn:
  "propagateToAllActiveListener ls n s = (q, s') \<Longrightarrow> conn s' = conn s"
  by (induction ls) (auto split: if_splits)


text \<open>
  Claim C1. When the session ends, every \<open>Ping\<close> that is waiting should be
  released with the same close error. On the adapter with two waiting callers
  (channels 0 and 1), \<open>Close\<close> and the close handler each hand the error to
  channel 0 only: channel 1 is left in the queue with its caller still blocked,
  and a further step of that caller under a live context stays blocked.
\<close>

theorem Close_releases_only_first_waiting_ping:
  "chans two_pending 0 = Receiving \<and> chans two_pending 1 = Receiving
   \<and> (case Close None 1000 ''bye'' None two_pending of
        (err, s') \<Rightarrow>
          err = None \<and> conn s' = None
          \<and> chans s' 0 = Handed (Some (WebsocketCloseError 1000 ''bye''
                                         (Errorf ''client closed the connection'')))
          \<and> chans s' 1 = Receiving
          \<and> pingRequests s' = [1]
          \<and> Ping_step quiet (Ping_parked 1) s' = (Ping_parked 1, s'))
   \<and> (case closeHandler 1001 ''going away'' two_pending of
        (err, s') \<Rightarrow>
          chans s' 0 = Handed (Some (WebsocketCloseError 1001 ''going away''
                                       (Errorf ''close message received from server'')))
          \<and> chans s' 1 = Receiving
          \<and> pingRequests s' = [1]
          \<and> Ping_step quiet (Ping_parked 1) s' = (Ping_parked 1, s'))"
  by (simp add: two_pending_eq Close_def closeHandler_def quiet_def)

text \<open>
  Claim C2. One pong satisfies exactly one pending \<open>Ping\<close>. When the queue
  is \<open>skipped @ l # rest\<close>, no caller of \<open>skipped\<close> is waiting any more and
  the caller of \<open>l\<close> is, the pong handler hands \<open>nil\<close> to \<open>l\<close> and to no other
  channel, drops \<open>skipped\<close> from the queue and leaves \<open>rest\<close> queued; the
  \<open>Ping\<close> blocked on \<open>l\<close> then returns \<open>nil\<close>, and the state of every other
  channel is what it was.
\<close>

theorem pong_satisfies_first_waiting_ping:
  assumes "pingRequests s = skipped @ l # rest"
      and "\<forall>x \<in> set skipped. chans s x \<noteq> Receiving"
      and "chans s l = Receiving"
  shows "pongHandler appData s =
           (None, s\<lparr> pingRequests := rest,
                     chans := (chans s)(l := Handed None),
                     events := events s @ [EvNotified l None] \<rparr>)
         \<and> Ping_step e (Ping_parked l) (snd (pongHandler appData s))
             = (Ping_return None, snd (pongHandler appData s))
         \<and> (\<forall>r. r \<noteq> l \<longrightarrow> chans (snd (pongHandler appData s)) r = chans s r)"
proof -
  have "propagateToFirstActiveListener (pingRequests s) None s
          = (True, rest, s\<lparr> chans := (chans s)(l := Handed None),
                            events := events s @ [EvNotified l None] \<rparr>)"
    using assms by (simp add: propagateToFirst_skip)
  then have eq: "pongHandler appData s =
           (None, s\<lparr> pingRequests := rest,
                     chans := (chans s)(l := Handed None),
                     events := events s @ [EvNotified l None] \<rparr>)"
    by (simp add: pongHandler_def)
  show ?thesis unfolding eq by simp
qed

theorem pong_satisfies_first_waiting_ping_witness:
  "pingRequests first_abandoned = [0] @ 1 # [2]
   \<and> chans first_abandoned 0 \<noteq> Receiving
   \<and> chans first_abandoned 1 = Receiving
   \<and> pongHandler [] first_abandoned =
           (None, first_abandoned\<lparr> pingRequests := [2],
                     chans := (chans first_abandoned)(1 := Handed None),
                     events := events first_abandoned @ [EvNotified 1 None] \<rparr>)
   \<and> Ping_step quiet (Ping_parked 1) (snd (pongHandler [] first_abandoned))
             = (Ping_return None, snd (pongHandler [] first_abandoned))
   \<and> chans (snd (pongHandler [] first_abandoned)) 0 = NoReceiver
   \<and> chans (snd (pongHandler [] first_abandoned)) 2 = Receiving"
  using pong_satisfies_first_waiting_ping [of first_abandoned "[0]" 1 "[2]" "[]" quiet]
  by (simp add: first_abandoned_eq)

subsection \<open>Runs of a Ping call\<close>

lemma Ping_run_return: "Ping_run es (Ping_return v) s = (Ping_return v, s)"
  by (induction es) auto










subsection \<open>Binding and unbinding\<close>

text \<open>Only \<open>Dial\<close>, \<open>Close\<close> and \<open>Read\<close> assign the connection handle.\<close>

lemma pongHandler_conn: "conn (snd (pongHandler d s)) = conn s"
  by (auto simp: pongHandler_def split: prod.splits dest: propagateToFirst_conn)

lemma closeHandler_conn: "conn (snd (closeHandler code reason s)) = conn s"
  by (auto simp: closeHandler_def split: prod.splits dest: propagateToAll_conn)

lemma handle_controls_conn: "conn (handle_controls cn fs s) = conn s"
proof (induction fs arbitrary: s)
  case Nil
  then show ?case by simp
next
  case (Cons f fs)
  have "conn (handle_control cn f s) = conn s"
    by (cases f) (auto simp: pongHandler_conn split: pong_handler.splits)
  with Cons show ?case by simp
qed

lemma ReadMessage_conn: "conn (snd (ReadMessage cn wire s)) = conn s"
  by (cases wire)
     (auto simp: Let_def handle_controls_conn closeHandler_conn
           split: final_frame.splits close_handler.splits)






text \<open>
  Claim C4. Let \<open>Read\<close> run on a bound adapter with a context that is not
  done, and let the transport's read fail with \<open>err\<close>. If \<open>err\<close> is a close
  error with code \<open>code\<close>, then \<open>Read\<close> returns the structured close error
  with that code, with the transport's rendering of the close error as reason
  and with \<open>err\<close> as cause, the handle is unbound and a following \<open>Dial\<close>
  succeeds. If \<open>err\<close> is any other error, \<open>Read\<close> returns \<open>err\<close> itself and
  the connection stays bound.
\<close>

theorem Read_close_unbinds_other_failure_keeps:
  assumes "conn s = Some cn"
      and "ReadMessage cn wire s = ((t, m, Some err), s')"
  shows "(\<forall>code reason. err = CloseError code reason \<longrightarrow>
            Read Error None wire s =
              ((- 1, None, Some (WebsocketCloseError code (Error (CloseError code reason))
                                   (CloseError code reason))),
               s'\<lparr> conn := None, events := events s' @ [EvConnSet None] \<rparr>)
            \<and> conn (snd (Read Error None wire s)) = None
            \<and> fst (Dial None target (DialSuccess cn2 res) (snd (Read Error None wire s)))
                = (res, None))
         \<and> ((\<forall>code reason. err \<noteq> CloseError code reason) \<longrightarrow>
              Read Error None wire s = ((- 1, None, Some err), s')
              \<and> conn (snd (Read Error None wire s)) = Some cn)"
proof -
  have keep: "conn s' = Some cn"
    using ReadMessage_conn [of cn wire s] assms by simp
  have a: "Read Error None wire s =
              ((- 1, None, Some (WebsocketCloseError code (Error (CloseError code reason))
                                   (CloseError code reason))),
               s'\<lparr> conn := None, events := events s' @ [EvConnSet None] \<rparr>)"
    if "err = CloseError code reason" for code reason
    using assms that by (simp add: Read_def)
  have b: "Read Error None wire s = ((- 1, None, Some err), s')"
    if "\<forall>code reason. err \<noteq> CloseError code reason"
    using assms that by (cases err) (simp_all add: Read_def)
  show ?thesis
    using a b keep by (auto simp: Dial_def Let_def)
qed

theorem Read_close_unbinds_other_failure_keeps_witness:
  "conn dialed = Some bound_conn
   \<and> ReadMessage bound_conn ([], CloseFrame 1000 ''bye'') dialed
       = ((- 1, None, Some (CloseError 1000 ''bye'')), dialed)
   \<and> Read sample_Error None ([], CloseFrame 1000 ''bye'') dialed =
       ((- 1, None, Some (WebsocketCloseError 1000 ''websocket: close: bye''
                            (CloseError 1000 ''bye''))),
        dialed\<lparr> conn := None, events := events dialed @ [EvConnSet None] \<rparr>)
   \<and> conn (snd (Read sample_Error None ([], CloseFrame 1000 ''bye'') dialed)) = None
   \<and> fst (Dial None ''ws://host'' (DialSuccess fresh_conn None)
            (snd (Read sample_Error None ([], CloseFrame 1000 ''bye'') dialed))) = (None, None)
   \<and> ReadMessage bound_conn ([], ReadFailure (- 1) None (TransportErr ''timeout'')) dialed
       = ((- 1, None, Some (TransportErr ''timeout'')), dialed)
   \<and> Read sample_Error None ([], ReadFailure (- 1) None (TransportErr ''timeout'')) dialed
       = ((- 1, None, Some (TransportErr ''timeout'')), dialed)
   \<and> conn (snd (Read sample_Error None
                   ([], ReadFailure (- 1) None (TransportErr ''timeout'')) dialed))
       = Some bound_conn"
  using Read_close_unbinds_other_failure_keeps [of dialed bound_conn
          "([], CloseFrame 1000 ''bye'')" "- 1" None "CloseError 1000 ''bye''" dialed
          sample_Error "''ws://host''" fresh_conn None]
        Read_close_unbinds_other_failure_keeps [of dialed bound_conn
          "([], ReadFailure (- 1) None (TransportErr ''timeout''))" "- 1" None
          "TransportErr ''timeout''" dialed sample_Error "''ws://host''" fresh_conn None]
  by (simp add: dialed_eq bound_conn_def closeHandler_def Dial_def Let_def)

subsection \<open>Close\<close>



subsection \<open>What Read returns with an error\<close>

text \<open>
  Claim C9. Whenever \<open>Read\<close> returns an error, the message type it returns
  is \<open>-1\<close>, which is not a message type, and the payload is \<open>nil\<close>, whatever
  the transport returned beside its error.
\<close>

theorem Read_error_sentinel:
  "snd (snd (fst (Read Error c wire s))) \<noteq> None \<longrightarrow>
     fst (fst (Read Error c wire s)) = - 1
     \<and> fst (snd (fst (Read Error c wire s))) = None
     \<and> \<not> valid_MessageType (- 1)"
  by (auto simp: Read_def valid_MessageType_def Text_def Binary_def
           split: option.splits prod.splits error.splits)

theorem Read_error_sentinel_witness:
  "snd (snd (fst (Read sample_Error None
                    ([], ReadFailure Text (Some [1, 2]) (TransportErr ''timeout'')) dialed)))
     \<noteq> None
   \<and> fst (fst (Read sample_Error None
                  ([], ReadFailure Text (Some [1, 2]) (TransportErr ''timeout'')) dialed)) = - 1
   \<and> fst (snd (fst (Read sample_Error None
                  ([], ReadFailure Text (Some [1, 2]) (TransportErr ''timeout'')) dialed)))
       = None
   \<and> \<not> valid_MessageType (- 1)"
  using Read_error_sentinel [where Error = sample_Error and c = None
          and wire = "([], ReadFailure Text (Some [1, 2]) (TransportErr ''timeout''))"
          and s = dialed]
  by (simp add: dialed_eq Read_def)

subsection \<open>Ping under a done context\<close>

text \<open>
  Claim C8. A \<open>Ping\<close> whose context is done at entry returns the context's
  error in its first step and the adapter is what it was: no reply channel is
  made or queued, no frame is handed to the transport, and no receiver waits.
\<close>

theorem Ping_done_context_returns_at_once:
  assumes "env_ctx e = Some k"
  shows "Ping (e # es) s = (Ping_return (Some (ContextErr k)), s)"
  using assms by (simp add: Ping_def Ping_run_return)

theorem Ping_done_context_returns_at_once_witness:
  "env_ctx cancelled = Some Canceled
   \<and> Ping (cancelled # [quiet, quiet, quiet]) dialed
       = (Ping_return (Some (ContextErr Canceled)), dialed)"
  using Ping_done_context_returns_at_once [where e = cancelled and k = Canceled
          and es = "[quiet, quiet, quiet]" and s = dialed]
  by (simp add: cancelled_def)

subsection \<open>The bounded queue\<close>

lemma pending_fields:
  "n \<le> 10 \<Longrightarrow>
   conn (pending n) = Some bound_conn \<and> pingRequests (pending n) = [0..<n]
   \<and> pingRequests_cap (pending n) = 10 \<and> next_chan (pending n) = n"
proof (induction n)
  case 0
  then show ?case by (simp add: dialed_eq)
next
  case (Suc n)
  then show ?case by (simp add: Ping_def quiet_def Let_def)
qed

lemma Ping_run_blocked:
  "length (pingRequests s) = pingRequests_cap s \<Longrightarrow> \<forall>x \<in> set es. env_ctx x = None \<Longrightarrow>
   Ping_run es (Ping_register cn p) s = (Ping_register cn p, s)"
  by (induction es) auto

lemma Ping_step_cap: "pingRequests_cap (snd (Ping_step e pc s)) = pingRequests_cap s"
  by (cases pc) (auto simp: Let_def split: option.splits slot.splits)

lemma Ping_step_bounded:
  "length (pingRequests s) \<le> pingRequests_cap s \<Longrightarrow>
   length (pingRequests (snd (Ping_step e pc s))) \<le> pingRequests_cap s"
  by (cases pc) (auto simp: Let_def split: option.splits slot.splits)

text \<open>
  Claim C7. The queue of pending ping requests is made with capacity 10 and
  empty, and no step of a \<open>Ping\<close> changes the capacity or lets the queue grow
  beyond it. When the queue holds as many channels as its capacity, the
  registration step of a further \<open>Ping\<close> leaves the adapter as it is: under a
  context that is not done the call stays at its registration, for any number
  of steps, and under a done context it returns the context's error. Once the
  queue holds fewer, the step queues the channel at the end.
\<close>

theorem full_queue_blocks_registration:
  "pingRequests_cap (NewGorillaWebsocketConnectionAdapter d h) = 10
   \<and> pingRequests (NewGorillaWebsocketConnectionAdapter d h) = []
   \<and> pingRequests_cap (snd (Ping_step e pc s)) = pingRequests_cap s
   \<and> (length (pingRequests s) \<le> pingRequests_cap s \<longrightarrow>
        length (pingRequests (snd (Ping_step e pc s))) \<le> pingRequests_cap s)
   \<and> (length (pingRequests s) = pingRequests_cap s \<longrightarrow>
        (env_ctx e = None \<longrightarrow>
           Ping_step e (Ping_register cn p) s = (Ping_register cn p, s))
        \<and> (env_ctx e = Some k \<longrightarrow>
           Ping_step e (Ping_register cn p) s = (Ping_return (Some (ContextErr k)), s))
        \<and> ((\<forall>x \<in> set es. env_ctx x = None) \<longrightarrow>
           Ping_run es (Ping_register cn p) s = (Ping_register cn p, s)))
   \<and> (length (pingRequests s) < pingRequests_cap s \<and> env_ctx e = None \<longrightarrow>
        Ping_step e (Ping_register cn p) s =
          (Ping_write cn p,
           s\<lparr> pingRequests := pingRequests s @ [p],
              events := events s @ [EvRegistered p] \<rparr>))"
  using Ping_step_cap [of e pc s] Ping_step_bounded [of s e pc]
    Ping_run_blocked [of s es cn p]
  by (auto simp: NewGorillaWebsocketConnectionAdapter_def)

theorem full_queue_blocks_registration_witness:
  "length (pingRequests (pending 10)) = pingRequests_cap (pending 10)
   \<and> pingRequests_cap (pending 10) = 10
   \<and> env_ctx quiet = None
   \<and> Ping_step quiet (Ping_register bound_conn 10) (pending 10)
       = (Ping_register bound_conn 10, pending 10)
   \<and> env_ctx cancelled = Some Canceled
   \<and> Ping_step cancelled (Ping_register bound_conn 10) (pending 10)
       = (Ping_return (Some (ContextErr Canceled)), pending 10)
   \<and> Ping_run [quiet, quiet, quiet] (Ping_register bound_conn 10) (pending 10)
       = (Ping_register bound_conn 10, pending 10)
   \<and> length (pingRequests two_pending) < pingRequests_cap two_pending
   \<and> Ping_step quiet (Ping_register bound_conn 2) two_pending =
        (Ping_write bound_conn 2,
         two_pending\<lparr> pingRequests := pingRequests two_pending @ [2],
                       events := events two_pending @ [EvRegistered 2] \<rparr>)
   \<and> length (pingRequests (snd (Ping_step quiet (Ping_register bound_conn 2) two_pending)))
       \<le> pingRequests_cap two_pending"
  using full_queue_blocks_registration [where s = "pending 10" and e = quiet
          and cn = bound_conn and p = 10 and es = "[quiet, quiet, quiet]"]
        full_queue_blocks_registration [where s = "pending 10" and e = cancelled
          and cn = bound_conn and p = 10 and k = Canceled]
        full_queue_blocks_registration [where s = two_pending and e = quiet
          and cn = bound_conn and p = 2 and pc = "Ping_register bound_conn 2"]
        pending_fields [of 10]
  by (simp add: quiet_def cancelled_def two_pending_eq)


subsection \<open>Abandoned reply channels\<close>

lemma pong_handler_step:
  assumes "pingRequests s = skipped @ l # rest"
      and "\<forall>x \<in> set skipped. chans s x \<noteq> Receiving"
      and "chans s l = Receiving"
  shows "pongHandler appData s =
           (None, s\<lparr> pingRequests := rest,
                     chans := (chans s)(l := Handed None),
                     events := events s @ [EvNotified l None] \<rparr>)"
  using assms by (simp add: pongHandler_def propagateToFirst_skip)

lemma propagateToFirst_no_receiver:
  "chans s p \<noteq> Receiving \<Longrightarrow>
   chans (snd (snd (propagateToFirstActiveListener ls n s))) p = chans s p"
  by (induction ls) auto

lemma propagateToFirst_none_receiving:
  "\<forall>x \<in> set ls. chans s x \<noteq> Receiving \<Longrightarrow>
   propagateToFirstActiveListener ls n s = (False, [], s)"
  by (induction ls) auto

lemma Ping_write_fails:
  assumes "conn s = Some cn" and "length (pingRequests s) < pingRequests_cap s"
      and "env_ctx ea = None" and "env_ctx eb = None" and "env_write ec = Some err"
  shows "Ping (ea # eb # ec # es) s =
           (Ping_return (Some (ErrorfW ''ping failed'' err)),
            s\<lparr> chans := (chans s)(next_chan s := NoReceiver),
               next_chan := Suc (next_chan s),
               pingRequests := pingRequests s @ [next_chan s],
               events := events s @ [EvRegistered (next_chan s),
                                      EvWriteControl cn PingMessage NilPayload] \<rparr>)"
  using assms by (simp add: Ping_def Ping_run_return Let_def)

text \<open>
  Claim C10. A \<open>Ping\<close> on a bound adapter that queues its channel \<open>p\<close> and
  whose ping frame the transport then refuses with \<open>err\<close> returns \<open>err\<close>
  wrapped, and returns with \<open>p\<close> still at the end of the queue and without a
  receiver. A later pong or close scan that finds no waiting caller in front of
  \<open>p\<close> drops \<open>p\<close> with the rest and hands it nothing; a pong scan that stops
  at a waiting caller in front of \<open>p\<close> leaves \<open>p\<close> queued.
\<close>

theorem failed_ping_leaves_slot_queued:
  assumes "conn s = Some cn" and "length (pingRequests s) < pingRequests_cap s"
      and "env_ctx ea = None" and "env_ctx eb = None" and "env_write ec = Some err"
  shows "(let p = next_chan s; s' = snd (Ping (ea # eb # ec # es) s) in
           fst (Ping (ea # eb # ec # es) s) = Ping_return (Some (ErrorfW ''ping failed'' err))
           \<and> pingRequests s' = pingRequests s @ [p]
           \<and> chans s' p = NoReceiver
           \<and> events s' = events s @ [EvRegistered p, EvWriteControl cn PingMessage NilPayload]
           \<and> ((\<forall>x \<in> set (pingRequests s). chans s x \<noteq> Receiving) \<longrightarrow>
                pongHandler d s' = (None, s'\<lparr> pingRequests := [] \<rparr>)
                \<and> closeHandler code reason s' = (None, s'\<lparr> pingRequests := [] \<rparr>))
           \<and> (pingRequests s = skipped @ l # rest
                \<and> (\<forall>x \<in> set skipped. chans s x \<noteq> Receiving)
                \<and> chans s l = Receiving \<and> l \<noteq> p \<longrightarrow>
                pingRequests (snd (pongHandler d s')) = rest @ [p]
                \<and> chans (snd (pongHandler d s')) p = NoReceiver))"
proof -
  let ?p = "next_chan s"
  let ?s' = "s\<lparr> chans := (chans s)(?p := NoReceiver),
               next_chan := Suc ?p,
               pingRequests := pingRequests s @ [?p],
               events := events s @ [EvRegistered ?p,
                                      EvWriteControl cn PingMessage NilPayload] \<rparr>"
  have run: "Ping (ea # eb # ec # es) s =
               (Ping_return (Some (ErrorfW ''ping failed'' err)), ?s')"
    using assms by (rule Ping_write_fails)
  have none: "pongHandler d ?s' = (None, ?s'\<lparr> pingRequests := [] \<rparr>)
              \<and> closeHandler code reason ?s' = (None, ?s'\<lparr> pingRequests := [] \<rparr>)"
    if "\<forall>x \<in> set (pingRequests s). chans s x \<noteq> Receiving"
  proof -
    have "\<forall>x \<in> set (pingRequests ?s'). chans ?s' x \<noteq> Receiving"
      using that by simp
    then show ?thesis
      by (simp add: pongHandler_def closeHandler_def propagateToAll_eq_First
            propagateToFirst_none_receiving del: propagateToFirstActiveListener.simps)
  qed
  have some: "pingRequests (snd (pongHandler d ?s')) = rest @ [?p]
              \<and> chans (snd (pongHandler d ?s')) ?p = NoReceiver"
    if "pingRequests s = skipped @ l # rest"
       "\<forall>x \<in> set skipped. chans s x \<noteq> Receiving" "chans s l = Receiving" "l \<noteq> ?p"
  proof -
    have q: "pingRequests ?s' = skipped @ l # (rest @ [?p])"
      using that(1) by simp
    have sk: "\<forall>x \<in> set skipped. chans ?s' x \<noteq> Receiving"
      using that(2) by simp
    have rc: "chans ?s' l = Receiving"
      using that(3,4) by simp
    from pong_handler_step [OF q sk rc] that(4) show ?thesis by simp
  qed
  show ?thesis
    unfolding Let_def run using none some by simp
qed


theorem failed_ping_leaves_slot_queued_witness:
  "conn dialed = Some bound_conn
   \<and> length (pingRequests dialed) < pingRequests_cap dialed
   \<and> env_ctx quiet = None
   \<and> env_write refused = Some (TransportErr ''broken pipe'')
   \<and> fst (Ping [quiet, quiet, refused] dialed)
       = Ping_return (Some (ErrorfW ''ping failed'' (TransportErr ''broken pipe'')))
   \<and> pingRequests (snd (Ping [quiet, quiet, refused] dialed)) = [0]
   \<and> chans (snd (Ping [quiet, quiet, refused] dialed)) 0 = NoReceiver
   \<and> pingRequests (snd (pongHandler [] (snd (Ping [quiet, quiet, refused] dialed)))) = []
   \<and> chans (snd (pongHandler [] (snd (Ping [quiet, quiet, refused] dialed)))) 0 = NoReceiver
   \<and> pingRequests first_abandoned = [0] @ 1 # [2]
   \<and> chans first_abandoned 0 \<noteq> Receiving
   \<and> chans first_abandoned 1 = Receiving
   \<and> pingRequests (snd (Ping [quiet, quiet, refused] first_abandoned)) = [0, 1, 2, 3]
   \<and> pingRequests (snd (pongHandler [] (snd (Ping [quiet, quiet, refused] first_abandoned))))
       = [2, 3]
   \<and> chans (snd (pongHandler [] (snd (Ping [quiet, quiet, refused] first_abandoned)))) 3
       = NoReceiver"
  using failed_ping_leaves_slot_queued [where s = dialed and cn = bound_conn and ea = quiet
          and eb = quiet and ec = refused and err = "TransportErr ''broken pipe''"
          and es = "[]" and d = "[]"]
        failed_ping_leaves_slot_queued [where s = first_abandoned and cn = bound_conn
          and ea = quiet and eb = quiet and ec = refused
          and err = "TransportErr ''broken pipe''" and es = "[]" and d = "[]"
          and skipped = "[0]" and l = 1 and rest = "[2]"]
  by (simp add: dialed_eq first_abandoned_eq quiet_def refused_def Let_def)

subsection \<open>Scans never grow the queue\<close>

lemma propagateToFirst_bounded:
  "propagateToFirstActiveListener ls n s = (b, q, s') \<Longrightarrow>
   pingRequests_cap s' = pingRequests_cap s \<and> length q \<le> length ls"
proof (induction ls)
  case Nil
  then show ?case by simp
next
  case (Cons l ls)
  then show ?case by (cases "chans s l = Receiving") auto
qed

lemma pongHandler_bounded:
  "pingRequests_cap (snd (pongHandler d s)) = pingRequests_cap s
   \<and> length (pingRequests (snd (pongHandler d s))) \<le> length (pingRequests s)"
proof -
  obtain b q s' where p: "propagateToFirstActiveListener (pingRequests s) None s = (b, q, s')"
    by (cases "propagateToFirstActiveListener (pingRequests s) None s") auto
  from propagateToFirst_bounded [OF p] p show ?thesis
    by (simp add: pongHandler_def)
qed

lemma closeHandler_bounded:
  "pingRequests_cap (snd (closeHandler code reason s)) = pingRequests_cap s
   \<and> length (pingRequests (snd (closeHandler code reason s))) \<le> length (pingRequests s)"
proof -
  let ?n = "Some (WebsocketCloseError code reason (Errorf ''close message received from server''))"
  obtain b q s' where p: "propagateToFirstActiveListener (pingRequests s) ?n s = (b, q, s')"
    by (cases "propagateToFirstActiveListener (pingRequests s) ?n s") auto
  from propagateToFirst_bounded [OF p] p show ?thesis
    by (simp add: closeHandler_def propagateToAll_eq_First)
qed

lemma Close_bounded:
  "pingRequests_cap (snd (Close c code reason we s)) = pingRequests_cap s
   \<and> length (pingRequests (snd (Close c code reason we s))) \<le> length (pingRequests s)"
proof (cases "conn s")
  case None
  then show ?thesis by (simp add: Close_def)
next
  case (Some cn)
  let ?n = "Some (WebsocketCloseError code reason (Errorf ''client closed the connection''))"
  let ?s1 = "s\<lparr> events := events s
                 @ [EvWriteControl cn CloseMessage (FormatCloseMessage code reason)] \<rparr>"
  obtain b q s' where p: "propagateToFirstActiveListener (pingRequests s) ?n ?s1 = (b, q, s')"
    by (cases "propagateToFirstActiveListener (pingRequests s) ?n ?s1") auto
  from propagateToFirst_bounded [OF p] p Some show ?thesis
    by (simp add: Close_def propagateToAll_eq_First)
qed

subsection \<open>A pong between transmission and wait\<close>

text \<open>
  A pong that arrives after the ping frame was transmitted and before the
  caller blocks in its last \<open>select\<close> finds the channel queued but without a
  receiver: the scan drops the channel, and the caller then waits on.
\<close>

lemma pong_before_wait:
  "fst (Ping [quiet, quiet, quiet] dialed) = Ping_wait 0
   \<and> pingRequests (snd (Ping [quiet, quiet, quiet] dialed)) = [0]
   \<and> pingRequests (snd (pongHandler [] (snd (Ping [quiet, quiet, quiet] dialed)))) = []
   \<and> fst (Ping_run [quiet, quiet, quiet] (Ping_wait 0)
            (snd (pongHandler [] (snd (Ping [quiet, quiet, quiet] dialed))))) = Ping_parked 0"
  by (simp add: dialed_eq Ping_def quiet_def Let_def pongHandler_def)

end
